theory Spec2Isabelle
  imports Complex_Main "HOL-Library.Word" "HOL-Library.Multiset"
begin

section \<open>Configuration\<close>

definition DATA_DIR :: string where
  "DATA_DIR = ''JARVIS_DATA''"

definition SCREENSHOT_INTERVAL_ACTIVE :: int where
  "SCREENSHOT_INTERVAL_ACTIVE = 30"

definition INACTIVITY_THRESHOLD :: int where
  "INACTIVITY_THRESHOLD = 60"

definition VIDEO_INTERVAL :: int where
  "VIDEO_INTERVAL = 1800"

definition VIDEO_DURATION :: int where
  "VIDEO_DURATION = 10"

definition OCR_ENABLED :: bool where
  "OCR_ENABLED = True"

section \<open>Values\<close>

text \<open>
  A Python exception caught by \<^verbatim>\<open>except Exception as e\<close> (or by a bare
  \<^verbatim>\<open>except:\<close>), with the text that \<^verbatim>\<open>{e}\<close> prints.
\<close>

datatype error = PyException string

fun str_of_error :: "error \<Rightarrow> string" where
  "str_of_error (PyException msg) = msg"

text \<open>
  A naive \<^verbatim>\<open>datetime\<close> is the number of microseconds since the epoch; the
  difference of two of them is a \<^verbatim>\<open>timedelta\<close>, again in microseconds, and
  \<^verbatim>\<open>total_seconds()\<close> divides it by \<open>10\<^sup>6\<close>. The comparisons of the
  source are against whole numbers of seconds, where the float of Python and the
  rational number agree.
\<close>

type_synonym datetime = int

definition total_seconds :: "int \<Rightarrow> rat" where
  "total_seconds delta = of_int delta / 1000000"

type_synonym byte = "8 word"

type_synonym image = nat

definition path_join :: "string \<Rightarrow> string \<Rightarrow> string" where
  "path_join a b = a @ ''/'' @ b"

subsection \<open>\<^verbatim>\<open>str.strip\<close> and \<^verbatim>\<open>base64.b64encode\<close>\<close>

definition is_space :: "char \<Rightarrow> bool" where
  "is_space c = (c \<in> set [CHR 0x09, CHR 0x0A, CHR 0x0B, CHR 0x0C, CHR 0x0D,
                           CHR 0x1C, CHR 0x1D, CHR 0x1E, CHR 0x1F, CHR 0x20])"

definition strip :: "string \<Rightarrow> string" where
  "strip s = rev (dropWhile is_space (rev (dropWhile is_space s)))"

definition b64_alphabet :: string where
  "b64_alphabet = ''ABCDEFGHIJKLMNOPQRSTUVWXYZabcdefghijklmnopqrstuvwxyz0123456789+/''"

definition b64_digit :: "nat \<Rightarrow> char" where
  "b64_digit n = b64_alphabet ! (n mod 64)"

fun b64encode :: "byte list \<Rightarrow> string" where
  "b64encode [] = []"
| "b64encode [a] =
     [b64_digit (unat a div 4), b64_digit (unat a mod 4 * 16), CHR ''='', CHR ''='']"
| "b64encode [a, b] =
     [b64_digit (unat a div 4), b64_digit (unat a mod 4 * 16 + unat b div 16),
      b64_digit (unat b mod 16 * 4), CHR ''='']"
| "b64encode (a # b # c # rest) =
     [b64_digit (unat a div 4), b64_digit (unat a mod 4 * 16 + unat b div 16),
      b64_digit (unat b mod 16 * 4 + unat c div 64), b64_digit (unat c mod 64)]
     @ b64encode rest"

section \<open>The store\<close>

text \<open>
  The three tables of \<^verbatim>\<open>DB_SCHEMA\<close>, each the list of its rows in insertion
  order (the \<^verbatim>\<open>id\<close> of a row is its position), as the shared connection sees
  them. The \<^verbatim>\<open>timestamp\<close> columns hold \<^verbatim>\<open>isoformat()\<close> text, whose text
  order is the order of the datetimes; the model keeps the datetime.
\<close>

record metric_row =
  m_timestamp :: datetime
  cpu :: rat
  memory :: rat
  network_sent :: int
  network_recv :: int

record activity_row =
  timestamp :: datetime
  window_title :: string
  process_name :: string
  screenshot :: string
  ocr_text :: string
  active_session :: bool

record video_row =
  v_timestamp :: datetime
  duration :: int
  file_path :: string

record store =
  metrics :: "metric_row list"
  activities :: "activity_row list"
  videos :: "video_row list"

section \<open>The monitor and its effects\<close>

text \<open>
  Every call the code makes to a collaborator outside it (screen, encoder, OCR, store,
  clock sleep, log) is recorded, in order, when it is made.
\<close>

datatype event =
    Sleep rat
  | Print string
  | ImageGrab_grab
  | Image_save string
  | Image_convert
  | Image_to_string
  | Image_thumbnail
  | Buffer_save
  | Mss_open
  | Monitor_lookup
  | VideoWriter_fourcc
  | VideoWriter_open string
  | Sct_grab
  | CvtColor
  | Writer_write
  | Writer_release
  | Db_execute string
  | Db_commit
  | Psutil string

text \<open>
  The fields of \<^verbatim>\<open>JarvisMonitor\<close> that the sampling loops read and write, the
  tables behind \<^verbatim>\<open>self.db\<close>, and the record of effects so far.
\<close>

record jarvis_monitor =
  monitoring_enabled :: bool
  last_activity :: datetime
  last_screenshot :: datetime
  last_video :: datetime
  current_window :: "string \<times> string"
  db :: store
  effects :: "event list"

text \<open>
  A call returns a value, raises, or has not returned yet (\<open>Running\<close>: the script of
  clock readings given to a loop ended before the loop did).
\<close>

datatype 'a result = Returned 'a | Raised error | Running

type_synonym 'a prog = "jarvis_monitor \<Rightarrow> 'a result \<times> jarvis_monitor"

definition returns :: "'a \<Rightarrow> 'a prog" where
  "returns v = (\<lambda>s. (Returned v, s))"

definition then_do :: "'a prog \<Rightarrow> ('a \<Rightarrow> 'b prog) \<Rightarrow> 'b prog" where
  "then_do m f = (\<lambda>s. case m s of
       (Returned v, s') \<Rightarrow> f v s'
     | (Raised e, s') \<Rightarrow> (Raised e, s')
     | (Running, s') \<Rightarrow> (Running, s'))"

definition try_except :: "'a prog \<Rightarrow> (error \<Rightarrow> 'a prog) \<Rightarrow> 'a prog" where
  "try_except m handler = (\<lambda>s. case m s of
       (Raised e, s') \<Rightarrow> handler e s'
     | (Returned v, s') \<Rightarrow> (Returned v, s')
     | (Running, s') \<Rightarrow> (Running, s'))"

definition external :: "event \<Rightarrow> error + 'a \<Rightarrow> 'a prog" where
  "external ev outcome = (\<lambda>s.
     (case outcome of Inl e \<Rightarrow> Raised e | Inr v \<Rightarrow> Returned v,
      s\<lparr>effects := effects s @ [ev]\<rparr>))"

definition gets :: "(jarvis_monitor \<Rightarrow> 'a) \<Rightarrow> 'a prog" where
  "gets f = (\<lambda>s. (Returned (f s), s))"

definition modify :: "(jarvis_monitor \<Rightarrow> jarvis_monitor) \<Rightarrow> unit prog" where
  "modify f = (\<lambda>s. (Returned (), f s))"

definition print :: "string \<Rightarrow> unit prog" where
  "print msg = external (Print msg) (Inr ())"

definition sleep :: "rat \<Rightarrow> unit prog" where
  "sleep secs = external (Sleep secs) (Inr ())"

definition toggle_monitoring :: "unit prog" where
  "toggle_monitoring = modify (\<lambda>s. s\<lparr>monitoring_enabled := \<not> monitoring_enabled s\<rparr>)"

section \<open>The active-window probe\<close>

text \<open>What the platform answers to the calls of \<^verbatim>\<open>get_active_window\<close>.\<close>

record probe_env =
  platform_system :: "error + string"
  import_win32gui :: "error + unit"
  GetForegroundWindow :: "error + int"
  GetWindowText :: "int \<Rightarrow> error + string"

definition get_active_window_try :: "probe_env \<Rightarrow> error + (string \<times> string)" where
  "get_active_window_try env =
     (case platform_system env of
        Inl e \<Rightarrow> Inl e
      | Inr system \<Rightarrow>
          if system = ''Windows'' then
            (case import_win32gui env of
               Inl e \<Rightarrow> Inl e
             | Inr _ \<Rightarrow>
                 (case GetForegroundWindow env of
                    Inl e \<Rightarrow> Inl e
                  | Inr hwnd \<Rightarrow>
                      (case GetWindowText env hwnd of
                         Inl e \<Rightarrow> Inl e
                       | Inr title \<Rightarrow> Inr (title, ''Windows Process''))))
          else Inr (''Terminal'', ''bash''))"

definition get_active_window :: "probe_env \<Rightarrow> error + (string \<times> string)" where
  "get_active_window env =
     (case get_active_window_try env of
        Inl e \<Rightarrow> Inr (''Unknown'', ''Unknown'')
      | Inr window \<Rightarrow> Inr window)"

text \<open>
  \<^verbatim>\<open>check_activity\<close>; \<open>clock\<close> is what \<^verbatim>\<open>datetime.now()\<close> answers on line 159.
\<close>

definition check_activity :: "probe_env \<Rightarrow> datetime \<Rightarrow> bool prog" where
  "check_activity env clock =
     then_do (\<lambda>s. (case get_active_window env of
                      Inl e \<Rightarrow> Raised e | Inr w \<Rightarrow> Returned w, s)) (\<lambda>window.
     then_do (gets current_window) (\<lambda>stored.
       if window \<noteq> stored then
         then_do (modify (\<lambda>s. s\<lparr>current_window := window\<rparr>)) (\<lambda>_.
         then_do (modify (\<lambda>s. s\<lparr>last_activity := clock\<rparr>)) (\<lambda>_.
         returns True))
       else returns False))"

section \<open>Screenshot capture\<close>

record ocr_env =
  convert_L :: "error + image"
  image_to_string :: "error + string"

text \<open>
  \<^verbatim>\<open>process_ocr\<close>; the module constant \<^verbatim>\<open>OCR_ENABLED\<close> is the first
  argument of \<open>process_ocr_with\<close>.
\<close>

definition process_ocr_with :: "bool \<Rightarrow> ocr_env \<Rightarrow> image \<Rightarrow> string prog" where
  "process_ocr_with ocr_enabled env img =
     try_except
       (if ocr_enabled then
          then_do (external Image_convert (convert_L env)) (\<lambda>grey.
          then_do (external Image_to_string (image_to_string env)) (\<lambda>text.
          returns (strip text)))
        else returns [])
       (\<lambda>e.
          then_do (print (''OCR Error: '' @ str_of_error e)) (\<lambda>_.
          returns []))"

definition process_ocr :: "ocr_env \<Rightarrow> image \<Rightarrow> string prog" where
  "process_ocr = process_ocr_with OCR_ENABLED"

text \<open>
  What the screen, the disk, the OCR engine and the JPEG encoder answer during one
  \<^verbatim>\<open>capture_screenshot\<close>; \<open>stamp\<close> is the \<^verbatim>\<open>strftime\<close> text of the clock and
  \<open>save_buffer\<close> the bytes left in the buffer by the second \<^verbatim>\<open>img.save\<close>.
\<close>

record shot_env =
  stamp :: string
  grab :: "error + image"
  save_jpeg :: "error + unit"
  ocr :: ocr_env
  thumbnail :: "error + unit"
  save_buffer :: "error + byte list"

definition screenshot_path :: "string \<Rightarrow> string" where
  "screenshot_path st =
     path_join (path_join DATA_DIR ''screenshots'') (''screenshot_'' @ st @ ''.jpg'')"

definition capture_screenshot_with ::
  "bool \<Rightarrow> shot_env \<Rightarrow> (string option \<times> string option \<times> string) prog" where
  "capture_screenshot_with ocr_enabled env =
     try_except
       (let path = screenshot_path (stamp env) in
        then_do (external ImageGrab_grab (grab env)) (\<lambda>img.
        then_do (external (Image_save path) (save_jpeg env)) (\<lambda>_.
        then_do (process_ocr_with ocr_enabled (ocr env) img) (\<lambda>ocr_text.
        then_do (external Image_thumbnail (thumbnail env)) (\<lambda>_.
        then_do (external Buffer_save (save_buffer env)) (\<lambda>buffer.
        let b64_img = b64encode buffer in
        returns (Some path, Some b64_img, ocr_text)))))))
       (\<lambda>e.
          then_do (print (''Screenshot error: '' @ str_of_error e)) (\<lambda>_.
          returns (None, None, [])))"

definition capture_screenshot ::
  "shot_env \<Rightarrow> (string option \<times> string option \<times> string) prog" where
  "capture_screenshot = capture_screenshot_with OCR_ENABLED"

text \<open>The truth value Python gives to \<^verbatim>\<open>b64_img\<close>: neither \<^verbatim>\<open>None\<close> nor empty.\<close>

fun truthy :: "string option \<Rightarrow> bool" where
  "truthy None = False"
| "truthy (Some text) = (text \<noteq> [])"

section \<open>The activity loop\<close>

text \<open>
  One iteration of \<^verbatim>\<open>monitor_activities\<close>: the probe's answers, the two clock
  readings (in \<^verbatim>\<open>check_activity\<close> and on line 202), the capture's answers and
  the store's answers to \<^verbatim>\<open>execute\<close> and \<^verbatim>\<open>commit\<close>.
\<close>

record activity_env =
  probe :: probe_env
  activity_clock :: datetime
  tick_now :: datetime
  shot :: shot_env
  activity_execute :: "error + unit"
  activity_commit :: "error + unit"

definition insert_activity :: "error + unit \<Rightarrow> activity_row \<Rightarrow> unit prog" where
  "insert_activity outcome row =
     then_do (external (Db_execute ''activities'') outcome) (\<lambda>_.
     modify (\<lambda>s. s\<lparr>db := (db s)\<lparr>activities := activities (db s) @ [row]\<rparr>\<rparr>))"

definition commit :: "error + unit \<Rightarrow> unit prog" where
  "commit outcome = external Db_commit outcome"

definition monitor_activities_iter :: "activity_env \<Rightarrow> unit prog" where
  "monitor_activities_iter env =
     try_except
       (then_do (gets monitoring_enabled) (\<lambda>enabled.
        if \<not> enabled then sleep 1
        else
          then_do (check_activity (probe env) (activity_clock env)) (\<lambda>activity_detected.
          let now = tick_now env in
          then_do (gets last_activity) (\<lambda>la.
          let inactive_time = total_seconds (now - la) in
          then_do
            (if inactive_time < of_int INACTIVITY_THRESHOLD then
               then_do (gets last_screenshot) (\<lambda>ls.
               if total_seconds (now - ls) \<ge> of_int SCREENSHOT_INTERVAL_ACTIVE then
                 then_do (capture_screenshot (shot env)) (\<lambda>(path, b64_img, ocr_text).
                 if truthy b64_img then
                   then_do (gets current_window) (\<lambda>cw.
                   then_do (insert_activity (activity_execute env)
                      \<lparr>timestamp = now, window_title = fst cw, process_name = snd cw,
                       screenshot = the b64_img, ocr_text = ocr_text,
                       active_session = True\<rparr>) (\<lambda>_.
                   then_do (commit (activity_commit env)) (\<lambda>_.
                   modify (\<lambda>s. s\<lparr>last_screenshot := now\<rparr>))))
                 else returns ())
               else returns ())
             else returns ()) (\<lambda>_.
          sleep 1)))))
       (\<lambda>e. print (''Activity monitoring error: '' @ str_of_error e))"

section \<open>The metrics loop\<close>

record system_env =
  system_now :: datetime
  cpu_percent :: "error + rat"
  virtual_memory :: "error + rat"
  net_io_counters :: "error + (int \<times> int)"
  system_execute :: "error + unit"
  system_commit :: "error + unit"

definition insert_metric :: "error + unit \<Rightarrow> metric_row \<Rightarrow> unit prog" where
  "insert_metric outcome row =
     then_do (external (Db_execute ''metrics'') outcome) (\<lambda>_.
     modify (\<lambda>s. s\<lparr>db := (db s)\<lparr>metrics := metrics (db s) @ [row]\<rparr>\<rparr>))"

definition monitor_system_iter :: "system_env \<Rightarrow> unit prog" where
  "monitor_system_iter env =
     try_except
       (then_do (gets monitoring_enabled) (\<lambda>enabled.
        if \<not> enabled then sleep 1
        else
          let stamp_now = system_now env in
          then_do (external (Psutil ''cpu_percent'') (cpu_percent env)) (\<lambda>c.
          then_do (external (Psutil ''virtual_memory'') (virtual_memory env)) (\<lambda>mem.
          then_do (external (Psutil ''net_io_counters'') (net_io_counters env)) (\<lambda>net.
          then_do (insert_metric (system_execute env)
             \<lparr>m_timestamp = stamp_now, cpu = c, memory = mem,
              network_sent = fst net, network_recv = snd net\<rparr>) (\<lambda>_.
          then_do (commit (system_commit env)) (\<lambda>_.
          sleep 5)))))))
       (\<lambda>e. print (''System monitoring error: '' @ str_of_error e))"

section \<open>Video recording and the video loop\<close>

text \<open>
  One pass of the frame loop: what \<^verbatim>\<open>time.time()\<close> answers at the loop test and
  what the three calls of the body answer. The loop runs while the clock says so; a
  script of passes that ends before the clock has passed the clip's duration leaves
  the call \<open>Running\<close>.
\<close>

record frame_step =
  frame_clock :: rat
  sct_grab :: "error + image"
  cvtColor :: "error + image"
  writer_write :: "error + unit"

record video_env =
  video_stamp :: string
  mss_open :: "error + unit"
  monitor_lookup :: "error + (int \<times> int)"
  fourcc :: "error + int"
  writer_open :: "error + unit"
  start_time :: rat
  frames :: "frame_step list"
  writer_release :: "error + unit"
  row_clock :: datetime
  video_execute :: "error + unit"
  video_commit :: "error + unit"

definition video_path :: "string \<Rightarrow> string" where
  "video_path st =
     path_join (path_join DATA_DIR ''videos'') (''recording_'' @ st @ ''.mp4'')"

fun record_frames :: "rat \<Rightarrow> frame_step list \<Rightarrow> unit prog" where
  "record_frames start [] = (\<lambda>s. (Running, s))"
| "record_frames start (f # fs) =
     (if frame_clock f - start < of_int VIDEO_DURATION then
        then_do (external Sct_grab (sct_grab f)) (\<lambda>frame.
        then_do (external CvtColor (cvtColor f)) (\<lambda>frame.
        then_do (external Writer_write (writer_write f)) (\<lambda>_.
        then_do (sleep (1 / 25)) (\<lambda>_.
        record_frames start fs))))
      else returns ())"

definition insert_video :: "error + unit \<Rightarrow> video_row \<Rightarrow> unit prog" where
  "insert_video outcome row =
     then_do (external (Db_execute ''videos'') outcome) (\<lambda>_.
     modify (\<lambda>s. s\<lparr>db := (db s)\<lparr>videos := videos (db s) @ [row]\<rparr>\<rparr>))"

definition record_video :: "video_env \<Rightarrow> string option prog" where
  "record_video env =
     try_except
       (let path = video_path (video_stamp env) in
        then_do (external Mss_open (mss_open env)) (\<lambda>_.
        then_do (external Monitor_lookup (monitor_lookup env)) (\<lambda>monitor.
        then_do (external VideoWriter_fourcc (fourcc env)) (\<lambda>codec.
        then_do (external (VideoWriter_open path) (writer_open env)) (\<lambda>_.
        then_do (record_frames (start_time env) (frames env)) (\<lambda>_.
        then_do (external Writer_release (writer_release env)) (\<lambda>_.
        then_do (insert_video (video_execute env)
           \<lparr>v_timestamp = row_clock env, duration = VIDEO_DURATION,
            file_path = path\<rparr>) (\<lambda>_.
        then_do (commit (video_commit env)) (\<lambda>_.
        returns (Some path))))))))))
       (\<lambda>e.
          then_do (print (''Video recording error: '' @ str_of_error e)) (\<lambda>_.
          returns None))"

text \<open>
  One iteration of \<^verbatim>\<open>monitor_videos\<close>: \<open>video_now\<close> is the clock on line 297,
  \<open>video_after\<close> the clock on line 299.
\<close>

record video_tick_env =
  video_now :: datetime
  video :: video_env
  video_after :: datetime

definition monitor_videos_iter :: "video_tick_env \<Rightarrow> unit prog" where
  "monitor_videos_iter env =
     try_except
       (then_do (gets monitoring_enabled) (\<lambda>enabled.
        if \<not> enabled then sleep 1
        else
          then_do (gets last_video) (\<lambda>lv.
          then_do
            (if total_seconds (video_now env - lv) > of_int VIDEO_INTERVAL then
               then_do (record_video (video env)) (\<lambda>_.
               modify (\<lambda>s. s\<lparr>last_video := video_after env\<rparr>))
             else returns ()) (\<lambda>_.
          sleep 1))))
       (\<lambda>e. print (''Video scheduler error: '' @ str_of_error e))"

section \<open>The history query\<close>

record history_entry =
  h_timestamp :: datetime
  h_window :: string
  h_process :: string
  h_screenshot :: string
  h_ocr_text :: string

text \<open>
  The \<^verbatim>\<open>SELECT\<close> of \<^verbatim>\<open>get_activity_history\<close>: the rows with
  \<^verbatim>\<open>active_session = 1\<close>, by descending timestamp, the first ten. Among rows of
  equal timestamp SQLite promises no order; here the later row comes first.
\<close>

definition select_history :: "store \<Rightarrow> activity_row list" where
  "select_history st =
     take 10 (rev (sort_key timestamp (filter active_session (activities st))))"

definition history_entry_of :: "activity_row \<Rightarrow> history_entry" where
  "history_entry_of row =
     \<lparr>h_timestamp = timestamp row, h_window = window_title row,
      h_process = process_name row, h_screenshot = screenshot row,
      h_ocr_text = ocr_text row\<rparr>"

definition get_activity_history :: "jarvis_monitor \<Rightarrow> history_entry list" where
  "get_activity_history s = map history_entry_of (select_history (db s))"

section \<open>Runs of the engine\<close>

text \<open>
  The three loops and the toggle of the control endpoint share one monitor; a run is
  any interleaving of their iterations.
\<close>

datatype action =
    Activities activity_env
  | System system_env
  | Videos video_tick_env
  | Toggle

fun step :: "action \<Rightarrow> unit prog" where
  "step (Activities env) = monitor_activities_iter env"
| "step (System env) = monitor_system_iter env"
| "step (Videos env) = monitor_videos_iter env"
| "step Toggle = toggle_monitoring"

fun run :: "action list \<Rightarrow> jarvis_monitor \<Rightarrow> jarvis_monitor" where
  "run [] s = s"
| "run (a # rest) s = run rest (snd (step a s))"

fun check_activities ::
  "(probe_env \<times> datetime) list \<Rightarrow> jarvis_monitor \<Rightarrow> jarvis_monitor list" where
  "check_activities [] s = []"
| "check_activities ((env, clock) # rest) s =
     (let s' = snd (check_activity env clock s) in s' # check_activities rest s')"

section \<open>Notions of the specification\<close>

text \<open>
  A platform or API failure of the probe: one of the calls that
  \<^verbatim>\<open>get_active_window\<close> reaches raises.
\<close>

definition probe_fails :: "probe_env \<Rightarrow> bool" where
  "probe_fails env =
     (case platform_system env of
        Inl e \<Rightarrow> True
      | Inr system \<Rightarrow>
          system = ''Windows'' \<and>
          (case import_win32gui env of
             Inl e \<Rightarrow> True
           | Inr _ \<Rightarrow>
               (case GetForegroundWindow env of
                  Inl e \<Rightarrow> True
                | Inr hwnd \<Rightarrow> isl (GetWindowText env hwnd))))"

text \<open>Text extraction fails when OCR is disabled or one of its two calls raises.\<close>

definition ocr_unavailable :: "bool \<Rightarrow> ocr_env \<Rightarrow> bool" where
  "ocr_unavailable ocr_enabled env =
     (\<not> ocr_enabled \<or> isl (convert_L env) \<or> isl (image_to_string env))"

text \<open>
  A screenshot capture raises when the grab, one of the two saves or the thumbnail
  raises; it succeeds when none does and the encoded thumbnail is not empty (a JPEG
  stream never is), which is what \<^verbatim>\<open>if b64_img:\<close> tests.
\<close>

definition screenshot_raises :: "shot_env \<Rightarrow> bool" where
  "screenshot_raises env =
     (isl (grab env) \<or> isl (save_jpeg env) \<or> isl (thumbnail env) \<or> isl (save_buffer env))"

definition screenshot_succeeds :: "shot_env \<Rightarrow> bool" where
  "screenshot_succeeds env = (\<not> screenshot_raises env \<and> projr (save_buffer env) \<noteq> [])"

text \<open>
  \<open>inactive_seconds\<close> of an iteration is measured after its call of
  \<^verbatim>\<open>check_activity\<close>; the screenshot is due when the session is active and the
  interval has elapsed.
\<close>

definition inactive_seconds :: "activity_env \<Rightarrow> jarvis_monitor \<Rightarrow> rat" where
  "inactive_seconds env s =
     total_seconds (tick_now env -
       last_activity (snd (check_activity (probe env) (activity_clock env) s)))"

definition screenshot_elapsed :: "activity_env \<Rightarrow> jarvis_monitor \<Rightarrow> rat" where
  "screenshot_elapsed env s = total_seconds (tick_now env - last_screenshot s)"

definition screenshot_due :: "activity_env \<Rightarrow> jarvis_monitor \<Rightarrow> bool" where
  "screenshot_due env s =
     (inactive_seconds env s < of_int INACTIVITY_THRESHOLD \<and>
      screenshot_elapsed env s \<ge> of_int SCREENSHOT_INTERVAL_ACTIVE)"

fun is_raised :: "'a result \<Rightarrow> bool" where
  "is_raised (Raised e) = True"
| "is_raised _ = False"

text \<open>
  The capture or encode of a clip fails when a call that \<^verbatim>\<open>record_video\<close>
  reaches before the insert raises: opening the screen, the monitor or the writer, a
  frame of the loop, or the release.
\<close>

definition encode_fails :: "video_env \<Rightarrow> jarvis_monitor \<Rightarrow> bool" where
  "encode_fails env s =
     (isl (mss_open env) \<or> isl (monitor_lookup env) \<or> isl (fourcc env) \<or>
      isl (writer_open env) \<or>
      is_raised (fst (record_frames (start_time env) (frames env) s)) \<or>
      (fst (record_frames (start_time env) (frames env) s) = Returned () \<and>
       isl (writer_release env)))"

section \<open>Concrete inputs\<close>

definition probe_no_win32 :: probe_env where
  "probe_no_win32 =
     \<lparr>platform_system = Inr ''Windows'',
      import_win32gui = Inl (PyException ''No module named win32gui''),
      GetForegroundWindow = Inr 0,
      GetWindowText = (\<lambda>hwnd. Inr [])\<rparr>"

definition probe_windows :: "string \<Rightarrow> probe_env" where
  "probe_windows title =
     \<lparr>platform_system = Inr ''Windows'',
      import_win32gui = Inr (),
      GetForegroundWindow = Inr 66,
      GetWindowText = (\<lambda>hwnd. Inr title)\<rparr>"

definition monitor0 :: jarvis_monitor where
  "monitor0 =
     \<lparr>monitoring_enabled = True, last_activity = 0, last_screenshot = 0, last_video = 0,
      current_window = ([], []),
      db = \<lparr>metrics = [], activities = [], videos = []\<rparr>, effects = []\<rparr>"

definition monitor_off :: jarvis_monitor where
  "monitor_off = monitor0\<lparr>monitoring_enabled := False\<rparr>"

definition three_observations :: "(probe_env \<times> datetime) list" where
  "three_observations =
     [(probe_windows ''Editor'', 5000000), (probe_windows ''Editor'', 9000000),
      (probe_windows ''Mail'', 12000000)]"

definition ocr_ok :: ocr_env where
  "ocr_ok = \<lparr>convert_L = Inr 2, image_to_string = Inr '' Hello ''\<rparr>"

definition ocr_down :: ocr_env where
  "ocr_down =
     \<lparr>convert_L = Inr 2,
      image_to_string = Inl (PyException ''tesseract is not installed'')\<rparr>"

definition shot_with :: "ocr_env \<Rightarrow> shot_env" where
  "shot_with oenv =
     \<lparr>stamp = ''20240101_120000'', grab = Inr 1, save_jpeg = Inr (), ocr = oenv,
      thumbnail = Inr (), save_buffer = Inr [0xFF, 0xD8, 0xFF]\<rparr>"

definition shot_grab_fails :: shot_env where
  "shot_grab_fails = (shot_with ocr_ok)\<lparr>grab := Inl (PyException ''screen grab failed'')\<rparr>"

text \<open>
  An iteration of the activity loop at \<open>now\<close>, with the window \<^verbatim>\<open>Editor\<close> in
  front, the given capture and the given answer of the store to the insert.
\<close>

definition activity_tick_env :: "shot_env \<Rightarrow> error + unit \<Rightarrow> datetime \<Rightarrow> activity_env" where
  "activity_tick_env sh ex now =
     \<lparr>probe = probe_windows ''Editor'', activity_clock = now - 50, tick_now = now,
      shot = sh, activity_execute = ex, activity_commit = Inr ()\<rparr>"

definition editor_row :: "datetime \<Rightarrow> activity_row" where
  "editor_row now =
     \<lparr>timestamp = now, window_title = ''Editor'', process_name = ''Windows Process'',
      screenshot = ''/9j/'', ocr_text = ''Hello'', active_session = True\<rparr>"

definition system_tick_env :: system_env where
  "system_tick_env =
     \<lparr>system_now = 5000000, cpu_percent = Inr (25 / 2), virtual_memory = Inr 40,
      net_io_counters = Inr (1000, 2000), system_execute = Inr (),
      system_commit = Inr ()\<rparr>"

definition good_frame :: "rat \<Rightarrow> frame_step" where
  "good_frame clock =
     \<lparr>frame_clock = clock, sct_grab = Inr 1, cvtColor = Inr 2, writer_write = Inr ()\<rparr>"

definition video_ok :: video_env where
  "video_ok =
     \<lparr>video_stamp = ''20240101_123000'', mss_open = Inr (), monitor_lookup = Inr (1920, 1080),
      fourcc = Inr 1983148141, writer_open = Inr (), start_time = 100,
      frames = [good_frame 100, good_frame 105, good_frame 111],
      writer_release = Inr (), row_clock = 1811000000,
      video_execute = Inr (), video_commit = Inr ()\<rparr>"

definition video_grab_fails :: video_env where
  "video_grab_fails =
     video_ok\<lparr>frames :=
       [(good_frame 100)\<lparr>sct_grab := Inl (PyException ''XGetImage() failed'')\<rparr>]\<rparr>"

text \<open>
  Two consecutive iterations of the video loop: the first is due (1801 s after
  \<open>last_video\<close>) and its recording fails at the first frame; the second comes one
  second after the first has ended.
\<close>

definition video_tick_failing :: video_tick_env where
  "video_tick_failing =
     \<lparr>video_now = 1801000000, video = video_grab_fails, video_after = 1801200000\<rparr>"

definition video_tick_next :: video_tick_env where
  "video_tick_next =
     \<lparr>video_now = 1802200000, video = video_ok, video_after = 1812200000\<rparr>"

definition stored_row :: "datetime \<Rightarrow> bool \<Rightarrow> activity_row" where
  "stored_row t active =
     \<lparr>timestamp = t, window_title = ''Editor'', process_name = ''Windows Process'',
      screenshot = ''/9j/'', ocr_text = [], active_session = active\<rparr>"

definition busy_monitor :: jarvis_monitor where
  "busy_monitor =
     monitor0\<lparr>db := \<lparr>metrics = [],
       activities = [stored_row 3 True, stored_row 1 True, stored_row 4 False,
         stored_row 12 True, stored_row 5 True, stored_row 9 True, stored_row 2 True,
         stored_row 6 True, stored_row 10 True, stored_row 7 True, stored_row 11 True,
         stored_row 8 True],
       videos = []\<rparr>\<rparr>"

definition engine_run :: "action list" where
  "engine_run =
     [Activities (activity_tick_env shot_grab_fails (Inr ()) 40000000),
      Activities (activity_tick_env (shot_with ocr_ok) (Inr ()) 41000000),
      System system_tick_env,
      Toggle,
      Activities (activity_tick_env (shot_with ocr_ok) (Inr ()) 75000000),
      Toggle]"

section \<open>Properties\<close>

lemmas prog_defs = returns_def then_do_def try_except_def external_def gets_def
  modify_def print_def sleep_def

lemmas input_defs = probe_windows_def monitor0_def monitor_off_def ocr_ok_def ocr_down_def
  shot_with_def shot_grab_fails_def activity_tick_env_def editor_row_def
  system_tick_env_def good_frame_def video_ok_def video_grab_fails_def
  video_tick_failing_def video_tick_next_def

lemmas config_defs = DATA_DIR_def SCREENSHOT_INTERVAL_ACTIVE_def INACTIVITY_THRESHOLD_def
  VIDEO_INTERVAL_def VIDEO_DURATION_def OCR_ENABLED_def total_seconds_def path_join_def
  screenshot_path_def video_path_def strip_def is_space_def b64_digit_def b64_alphabet_def

lemmas code_defs = get_active_window_def get_active_window_try_def check_activity_def
  process_ocr_with_def capture_screenshot_with_def capture_screenshot_def
  insert_activity_def insert_metric_def insert_video_def commit_def
  monitor_activities_iter_def monitor_system_iter_def record_video_def
  monitor_videos_iter_def toggle_monitoring_def

subsection \<open>The probe\<close>

lemma get_active_window_try_fails:
  "probe_fails env \<longleftrightarrow> isl (get_active_window_try env)"
  by (simp add: probe_fails_def get_active_window_try_def split: sum.splits)

lemma get_active_window_returns:
  "\<exists>window. get_active_window env = Inr window"
  by (simp add: get_active_window_def split: sum.splits)

text \<open>
  C8. Whatever the platform answers, \<^verbatim>\<open>get_active_window\<close> returns a pair of
  title and process and raises nothing; when a call it makes fails, the pair is
  \<^verbatim>\<open>("Unknown", "Unknown")\<close>.
\<close>

theorem get_active_window_total:
  "(\<exists>title process. get_active_window env = Inr (title, process)) \<and>
   (probe_fails env \<longrightarrow> get_active_window env = Inr (''Unknown'', ''Unknown''))"
  by (auto simp: get_active_window_def get_active_window_try_fails split: sum.splits)

theorem get_active_window_total_witness:
  "probe_fails probe_no_win32 \<and>
   get_active_window probe_no_win32 = Inr (''Unknown'', ''Unknown'')"
  using get_active_window_total [of probe_no_win32]
  by (simp add: probe_fails_def probe_no_win32_def)

subsection \<open>Activity transitions\<close>

lemma check_activity_step:
  "check_activity env clock s =
     (if projr (get_active_window env) \<noteq> current_window s
      then (Returned True,
            s\<lparr>current_window := projr (get_active_window env), last_activity := clock\<rparr>)
      else (Returned False, s))"
proof -
  obtain window where "get_active_window env = Inr window"
    using get_active_window_returns by blast
  then show ?thesis
    by (simp add: check_activity_def prog_defs)
qed

lemma check_activity_frame:
  "\<exists>b s1. check_activity env clock s = (Returned b, s1) \<and>
     monitoring_enabled s1 = monitoring_enabled s \<and> last_screenshot s1 = last_screenshot s \<and>
     last_video s1 = last_video s \<and> db s1 = db s \<and> effects s1 = effects s"
  by (auto simp: check_activity_step)

text \<open>
  C3. Along any sequence of observations, the \<open>i\<close>-th observation sets
  \<open>last_activity\<close> to its clock reading, together with \<open>current_window\<close>, when
  the observed pair differs from the stored one, and changes nothing when it is the
  same.
\<close>

theorem check_activities_update_iff:
  "i < length obs \<Longrightarrow>
   (let before = (s # check_activities obs s) ! i;
        after = check_activities obs s ! i;
        window = projr (get_active_window (fst (obs ! i)));
        clock = snd (obs ! i)
    in if window \<noteq> current_window before
       then after = before\<lparr>current_window := window, last_activity := clock\<rparr>
       else after = before)"
proof (induction obs arbitrary: s i)
  case Nil
  then show ?case by simp
next
  case (Cons ob rest)
  obtain env clock where ob: "ob = (env, clock)" by (cases ob)
  show ?case
  proof (cases i)
    case 0
    then show ?thesis
      by (simp add: ob check_activity_step Let_def)
  next
    case (Suc j)
    with Cons.prems have "j < length rest" by simp
    from Cons.IH [OF this, of "snd (check_activity env clock s)"] show ?thesis
      by (simp add: ob Suc Let_def)
  qed
qed

theorem check_activities_update_iff_witness:
  "(2::nat) < length three_observations \<and>
   (monitor0 # check_activities three_observations monitor0) ! 2 =
     monitor0\<lparr>current_window := (''Editor'', ''Windows Process''), last_activity := 5000000\<rparr> \<and>
   check_activities three_observations monitor0 ! 2 =
     monitor0\<lparr>current_window := (''Mail'', ''Windows Process''), last_activity := 12000000\<rparr>"
  using check_activities_update_iff [of 2 three_observations monitor0]
  by (simp add: three_observations_def Let_def get_active_window_def
      get_active_window_try_def probe_windows_def monitor0_def check_activity_step)

subsection \<open>The monitoring flag\<close>

text \<open>
  C6. An iteration of any of the three loops that reads the flag as false makes no
  capture and no store call and leaves the monitor as it was: its only effect is one
  sleep of one second, whatever the environment would have answered.
\<close>

theorem disabled_tick_only_sleeps:
  "\<not> monitoring_enabled s \<Longrightarrow>
     monitor_activities_iter aenv s = (Returned (), s\<lparr>effects := effects s @ [Sleep 1]\<rparr>) \<and>
     monitor_system_iter senv s = (Returned (), s\<lparr>effects := effects s @ [Sleep 1]\<rparr>) \<and>
     monitor_videos_iter venv s = (Returned (), s\<lparr>effects := effects s @ [Sleep 1]\<rparr>)"
  by (simp add: monitor_activities_iter_def monitor_system_iter_def
      monitor_videos_iter_def prog_defs)

theorem disabled_tick_only_sleeps_witness:
  "\<not> monitoring_enabled monitor_off \<and>
   monitor_activities_iter (activity_tick_env (shot_with ocr_ok) (Inr ()) 40000000) monitor_off =
     (Returned (), monitor_off\<lparr>effects := [Sleep 1]\<rparr>) \<and>
   monitor_system_iter system_tick_env monitor_off =
     (Returned (), monitor_off\<lparr>effects := [Sleep 1]\<rparr>) \<and>
   monitor_videos_iter video_tick_failing monitor_off =
     (Returned (), monitor_off\<lparr>effects := [Sleep 1]\<rparr>)"
  using disabled_tick_only_sleeps [of monitor_off
      "activity_tick_env (shot_with ocr_ok) (Inr ()) 40000000" system_tick_env
      video_tick_failing]
  by (simp add: monitor_off_def monitor0_def)

subsection \<open>Screenshot capture\<close>

lemma b64encode_empty_iff: "b64encode buffer = [] \<longleftrightarrow> buffer = []"
  by (induction buffer rule: b64encode.induct) simp_all

lemma process_ocr_with_returns:
  "\<exists>out evs. (\<forall>img s. process_ocr_with f env img s =
        (Returned out, s\<lparr>effects := effects s @ evs\<rparr>))
     \<and> (ocr_unavailable f env \<longrightarrow> out = [])"
proof (cases "f")
  case False
  then have "\<forall>img s. process_ocr_with f env img s =
      (Returned [], s\<lparr>effects := effects s @ []\<rparr>)"
    by (simp add: process_ocr_with_def prog_defs)
  then show ?thesis by blast
next
  case True
  then show ?thesis
    by (cases "convert_L env"; cases "image_to_string env")
       (auto simp: process_ocr_with_def prog_defs ocr_unavailable_def)
qed

lemma capture_screenshot_with_returns:
  "\<exists>path b64 out evs.
     capture_screenshot_with f env s =
       (Returned (path, b64, out), s\<lparr>effects := effects s @ ImageGrab_grab # evs\<rparr>)
     \<and> (truthy b64 \<longleftrightarrow> screenshot_succeeds env)
     \<and> (\<not> screenshot_raises env \<longrightarrow>
          path = Some (screenshot_path (stamp env)) \<and>
          b64 = Some (b64encode (projr (save_buffer env))) \<and>
          Image_save (screenshot_path (stamp env)) \<in> set evs \<and>
          Image_thumbnail \<in> set evs \<and> Buffer_save \<in> set evs \<and>
          (ocr_unavailable f (ocr env) \<longrightarrow> out = []))"
proof -
  obtain out evs where ocr:
    "\<And>img s. process_ocr_with f (ocr env) img s =
       (Returned out, s\<lparr>effects := effects s @ evs\<rparr>)"
    "ocr_unavailable f (ocr env) \<longrightarrow> out = []"
    using process_ocr_with_returns [of f "ocr env"] by blast
  show ?thesis
    by (cases "grab env"; cases "save_jpeg env"; cases "thumbnail env"; cases "save_buffer env")
       (auto simp: capture_screenshot_with_def prog_defs screenshot_raises_def
          screenshot_succeeds_def Let_def ocr b64encode_empty_iff)
qed

text \<open>
  C9. When text extraction fails (OCR disabled, or one of its calls raises),
  \<^verbatim>\<open>process_ocr\<close> returns the empty string and raises nothing, and a capture
  whose own calls do not raise still returns the artifact's path and the thumbnail,
  with the empty string as text, after saving the artifact and making the thumbnail.
\<close>

theorem ocr_failure_keeps_capture:
  "ocr_unavailable f (ocr env) \<Longrightarrow> \<not> screenshot_raises env \<Longrightarrow>
   (\<exists>evs. process_ocr_with f (ocr env) img s =
      (Returned [], s\<lparr>effects := effects s @ evs\<rparr>)) \<and>
   (\<exists>evs. capture_screenshot_with f env s =
      (Returned (Some (screenshot_path (stamp env)),
                 Some (b64encode (projr (save_buffer env))), []),
       s\<lparr>effects := effects s @ evs\<rparr>) \<and>
      Image_save (screenshot_path (stamp env)) \<in> set evs \<and>
      Image_thumbnail \<in> set evs \<and> Buffer_save \<in> set evs)"
proof -
  assume down: "ocr_unavailable f (ocr env)" and fine: "\<not> screenshot_raises env"
  have first: "\<exists>evs. process_ocr_with f (ocr env) img s =
      (Returned [], s\<lparr>effects := effects s @ evs\<rparr>)"
    using process_ocr_with_returns [of f "ocr env"] down by auto
  obtain path b64 out evs where
    "capture_screenshot_with f env s =
       (Returned (path, b64, out), s\<lparr>effects := effects s @ ImageGrab_grab # evs\<rparr>)"
    "path = Some (screenshot_path (stamp env))"
    "b64 = Some (b64encode (projr (save_buffer env)))"
    "Image_save (screenshot_path (stamp env)) \<in> set evs"
    "Image_thumbnail \<in> set evs" "Buffer_save \<in> set evs" "out = []"
    using capture_screenshot_with_returns [of f env s] down fine by blast
  then have "capture_screenshot_with f env s =
      (Returned (Some (screenshot_path (stamp env)),
                 Some (b64encode (projr (save_buffer env))), []),
       s\<lparr>effects := effects s @ (ImageGrab_grab # evs)\<rparr>) \<and>
      Image_save (screenshot_path (stamp env)) \<in> set (ImageGrab_grab # evs) \<and>
      Image_thumbnail \<in> set (ImageGrab_grab # evs) \<and>
      Buffer_save \<in> set (ImageGrab_grab # evs)"
    by simp
  then show ?thesis using first by blast
qed

theorem ocr_failure_keeps_capture_witness:
  "ocr_unavailable True (ocr (shot_with ocr_down)) \<and>
   \<not> screenshot_raises (shot_with ocr_down) \<and>
   process_ocr_with True (ocr (shot_with ocr_down)) 1 monitor0 =
     (Returned [],
      monitor0\<lparr>effects := [Image_convert, Image_to_string,
        Print ''OCR Error: tesseract is not installed'']\<rparr>) \<and>
   capture_screenshot_with True (shot_with ocr_down) monitor0 =
     (Returned (Some ''JARVIS_DATA/screenshots/screenshot_20240101_120000.jpg'',
                Some ''/9j/'', []),
      monitor0\<lparr>effects := [ImageGrab_grab,
        Image_save ''JARVIS_DATA/screenshots/screenshot_20240101_120000.jpg'',
        Image_convert, Image_to_string, Print ''OCR Error: tesseract is not installed'',
        Image_thumbnail, Buffer_save]\<rparr>)"
  using ocr_failure_keeps_capture [of True "shot_with ocr_down" 1 monitor0]
  by (simp add: ocr_unavailable_def screenshot_raises_def input_defs config_defs
      code_defs prog_defs Let_def)

subsection \<open>The activity loop\<close>

lemma activity_tick_cases:
  assumes enabled: "monitoring_enabled s"
  shows "(let s' = snd (monitor_activities_iter env s) in
    (if screenshot_due env s \<and> screenshot_succeeds (shot env) \<and>
        \<not> isl (activity_execute env)
     then \<exists>row. activities (db s') = activities (db s) @ [row] \<and>
            timestamp row = tick_now env \<and> active_session row
     else activities (db s') = activities (db s)) \<and>
    (if screenshot_due env s \<and> screenshot_succeeds (shot env) \<and>
        \<not> isl (activity_execute env) \<and> \<not> isl (activity_commit env)
     then last_screenshot s' = tick_now env
     else last_screenshot s' = last_screenshot s) \<and>
    (\<not> inactive_seconds env s < of_int INACTIVITY_THRESHOLD \<longrightarrow>
       db s' = db s \<and> effects s' = effects s @ [Sleep 1]))"
proof -
  obtain b s1 where chk: "check_activity (probe env) (activity_clock env) s = (Returned b, s1)"
    and s1: "monitoring_enabled s1 = monitoring_enabled s"
      "last_screenshot s1 = last_screenshot s" "db s1 = db s" "effects s1 = effects s"
    using check_activity_frame by blast
  obtain path b64 out evs where cap:
    "capture_screenshot (shot env) s1 =
       (Returned (path, b64, out), s1\<lparr>effects := effects s1 @ ImageGrab_grab # evs\<rparr>)"
    and ok: "truthy b64 \<longleftrightarrow> screenshot_succeeds (shot env)"
    using capture_screenshot_with_returns [of OCR_ENABLED "shot env" s1]
    unfolding capture_screenshot_def by blast
  have due: "screenshot_due env s \<longleftrightarrow>
      total_seconds (tick_now env - last_activity s1) < of_int INACTIVITY_THRESHOLD \<and>
      total_seconds (tick_now env - last_screenshot s) \<ge> of_int SCREENSHOT_INTERVAL_ACTIVE"
    by (simp add: screenshot_due_def inactive_seconds_def screenshot_elapsed_def chk)
  have ia: "inactive_seconds env s = total_seconds (tick_now env - last_activity s1)"
    by (simp add: inactive_seconds_def chk)
  show ?thesis
    by (cases "activity_execute env"; cases "activity_commit env")
       (auto simp: monitor_activities_iter_def prog_defs enabled chk s1 cap ok due ia
          insert_activity_def commit_def Let_def)
qed

lemma eligible_tick_captures:
  assumes "monitoring_enabled s" "screenshot_due env s"
  shows "\<exists>evs. effects (snd (monitor_activities_iter env s)) = effects s @ ImageGrab_grab # evs"
proof -
  obtain b s1 where chk: "check_activity (probe env) (activity_clock env) s = (Returned b, s1)"
    and s1: "monitoring_enabled s1 = monitoring_enabled s"
      "last_screenshot s1 = last_screenshot s" "db s1 = db s" "effects s1 = effects s"
    using check_activity_frame by blast
  obtain path b64 out evs where cap:
    "capture_screenshot (shot env) s1 =
       (Returned (path, b64, out), s1\<lparr>effects := effects s1 @ ImageGrab_grab # evs\<rparr>)"
    using capture_screenshot_with_returns [of OCR_ENABLED "shot env" s1]
    unfolding capture_screenshot_def by blast
  have due: "total_seconds (tick_now env - last_activity s1) < of_int INACTIVITY_THRESHOLD"
      "total_seconds (tick_now env - last_screenshot s) \<ge> of_int SCREENSHOT_INTERVAL_ACTIVE"
    using assms(2)
    by (simp_all add: screenshot_due_def inactive_seconds_def screenshot_elapsed_def chk)
  show ?thesis
    by (cases "activity_execute env"; cases "activity_commit env")
       (auto simp: monitor_activities_iter_def prog_defs assms(1) chk s1 cap due
          insert_activity_def commit_def Let_def)
qed

lemma activity_tick_flag:
  "monitoring_enabled (snd (monitor_activities_iter env s)) = monitoring_enabled s"
proof (cases "monitoring_enabled s")
  case False
  then show ?thesis by (simp add: monitor_activities_iter_def prog_defs)
next
  case enabled: True
  obtain b s1 where chk: "check_activity (probe env) (activity_clock env) s = (Returned b, s1)"
    and s1: "monitoring_enabled s1 = monitoring_enabled s"
    using check_activity_frame by blast
  obtain path b64 out evs where cap:
    "capture_screenshot (shot env) s1 =
       (Returned (path, b64, out), s1\<lparr>effects := effects s1 @ ImageGrab_grab # evs\<rparr>)"
    using capture_screenshot_with_returns [of OCR_ENABLED "shot env" s1]
    unfolding capture_screenshot_def by blast
  show ?thesis
    by (cases "activity_execute env"; cases "activity_commit env")
       (auto simp: monitor_activities_iter_def prog_defs enabled chk s1 cap
          insert_activity_def commit_def Let_def)
qed

text \<open>
  C2, as the code has it. In an iteration of the activity loop with monitoring
  enabled, a row is inserted exactly when the session is active
  (\<open>inactive_seconds < 60\<close>), the interval has elapsed
  (\<open>now - last_screenshot \<ge> 30\<close>), the capture succeeds and the store's
  \<^verbatim>\<open>execute\<close> does not raise; \<open>last_screenshot\<close> becomes \<open>now\<close> exactly when,
  besides, the \<^verbatim>\<open>commit\<close> does not raise, and is unchanged otherwise. With
  \<open>inactive_seconds \<ge> 60\<close> the iteration makes no capture and no store call: it
  only sleeps.
\<close>

theorem activity_tick_rule:
  "monitoring_enabled s \<Longrightarrow>
   (let s' = snd (monitor_activities_iter env s) in
    (if screenshot_due env s \<and> screenshot_succeeds (shot env) \<and>
        \<not> isl (activity_execute env)
     then \<exists>row. activities (db s') = activities (db s) @ [row] \<and>
            timestamp row = tick_now env \<and> active_session row
     else activities (db s') = activities (db s)) \<and>
    (if screenshot_due env s \<and> screenshot_succeeds (shot env) \<and>
        \<not> isl (activity_execute env) \<and> \<not> isl (activity_commit env)
     then last_screenshot s' = tick_now env
     else last_screenshot s' = last_screenshot s) \<and>
    (\<not> inactive_seconds env s < of_int INACTIVITY_THRESHOLD \<longrightarrow>
       db s' = db s \<and> effects s' = effects s @ [Sleep 1]))"
  by (rule activity_tick_cases)

theorem activity_tick_rule_witness:
  "monitoring_enabled monitor0 \<and>
   screenshot_due (activity_tick_env (shot_with ocr_ok) (Inr ()) 40000000) monitor0 \<and>
   screenshot_succeeds (shot_with ocr_ok) \<and>
   activities (db (snd (monitor_activities_iter
     (activity_tick_env (shot_with ocr_ok) (Inr ()) 40000000) monitor0))) =
     [editor_row 40000000] \<and>
   last_screenshot (snd (monitor_activities_iter
     (activity_tick_env (shot_with ocr_ok) (Inr ()) 40000000) monitor0)) = 40000000"
  using activity_tick_rule [of monitor0 "activity_tick_env (shot_with ocr_ok) (Inr ()) 40000000"]
  by (simp add: screenshot_due_def inactive_seconds_def screenshot_elapsed_def
      screenshot_succeeds_def screenshot_raises_def input_defs config_defs code_defs
      prog_defs Let_def)

text \<open>
  C2 as stated fails when the store refuses the insert: the session is active, the
  interval has elapsed and the capture succeeds, yet no row is written and
  \<open>last_screenshot\<close> stays where it was.
\<close>

theorem activity_tick_store_failure:
  "monitoring_enabled monitor0 \<and>
   inactive_seconds
     (activity_tick_env (shot_with ocr_ok) (Inl (PyException ''database is locked'')) 40000000)
     monitor0 < of_int INACTIVITY_THRESHOLD \<and>
   screenshot_elapsed
     (activity_tick_env (shot_with ocr_ok) (Inl (PyException ''database is locked'')) 40000000)
     monitor0 \<ge> of_int SCREENSHOT_INTERVAL_ACTIVE \<and>
   screenshot_succeeds (shot_with ocr_ok) \<and>
   activities (db (snd (monitor_activities_iter
     (activity_tick_env (shot_with ocr_ok) (Inl (PyException ''database is locked'')) 40000000)
     monitor0))) = activities (db monitor0) \<and>
   last_screenshot (snd (monitor_activities_iter
     (activity_tick_env (shot_with ocr_ok) (Inl (PyException ''database is locked'')) 40000000)
     monitor0)) = 0 \<and>
   tick_now
     (activity_tick_env (shot_with ocr_ok) (Inl (PyException ''database is locked'')) 40000000)
     = 40000000 \<and>
   monitor_activities_iter
     (activity_tick_env (shot_with ocr_ok) (Inl (PyException ''database is locked'')) 40000000)
     monitor0 =
     (Returned (),
      monitor0\<lparr>current_window := (''Editor'', ''Windows Process''),
        last_activity := 39999950,
        effects := [ImageGrab_grab,
          Image_save ''JARVIS_DATA/screenshots/screenshot_20240101_120000.jpg'',
          Image_convert, Image_to_string, Image_thumbnail, Buffer_save,
          Db_execute ''activities'',
          Print ''Activity monitoring error: database is locked'']\<rparr>)"
  by (simp add: inactive_seconds_def screenshot_elapsed_def
      screenshot_succeeds_def screenshot_raises_def input_defs config_defs code_defs
      prog_defs Let_def)

text \<open>
  C4. An iteration of the activity loop whose capture fails writes nothing to the
  store and leaves \<open>last_screenshot\<close> as it was, so that the next iteration for
  which the screenshot is due starts a capture.
\<close>

theorem failed_capture_leaves_last_screenshot:
  "monitoring_enabled s \<Longrightarrow> \<not> screenshot_succeeds (shot env) \<Longrightarrow>
   (let s' = snd (monitor_activities_iter env s) in
      db s' = db s \<and> last_screenshot s' = last_screenshot s \<and>
      (\<forall>env2. screenshot_due env2 s' \<longrightarrow>
         (\<exists>evs. effects (snd (monitor_activities_iter env2 s')) =
            effects s' @ ImageGrab_grab # evs)))"
proof -
  assume enabled: "monitoring_enabled s" and failed: "\<not> screenshot_succeeds (shot env)"
  obtain b s1 where chk: "check_activity (probe env) (activity_clock env) s = (Returned b, s1)"
    and s1: "monitoring_enabled s1 = monitoring_enabled s"
      "last_screenshot s1 = last_screenshot s" "db s1 = db s" "effects s1 = effects s"
    using check_activity_frame by blast
  obtain path b64 out evs where cap:
    "capture_screenshot (shot env) s1 =
       (Returned (path, b64, out), s1\<lparr>effects := effects s1 @ ImageGrab_grab # evs\<rparr>)"
    and ok: "truthy b64 \<longleftrightarrow> screenshot_succeeds (shot env)"
    using capture_screenshot_with_returns [of OCR_ENABLED "shot env" s1]
    unfolding capture_screenshot_def by blast
  have unchanged: "db (snd (monitor_activities_iter env s)) = db s"
    "last_screenshot (snd (monitor_activities_iter env s)) = last_screenshot s"
    using failed
    by (auto simp: monitor_activities_iter_def prog_defs enabled chk s1 cap ok Let_def)
  have "monitoring_enabled (snd (monitor_activities_iter env s))"
    using enabled by (simp add: activity_tick_flag)
  then show ?thesis
    using unchanged eligible_tick_captures by (simp add: Let_def)
qed

theorem failed_capture_leaves_last_screenshot_witness:
  "monitoring_enabled monitor0 \<and> \<not> screenshot_succeeds shot_grab_fails \<and>
   monitor_activities_iter (activity_tick_env shot_grab_fails (Inr ()) 40000000) monitor0 =
     (Returned (),
      monitor0\<lparr>current_window := (''Editor'', ''Windows Process''),
        last_activity := 39999950,
        effects := [ImageGrab_grab, Print ''Screenshot error: screen grab failed'',
          Sleep 1]\<rparr>) \<and>
   screenshot_due (activity_tick_env (shot_with ocr_ok) (Inr ()) 41000000)
     (snd (monitor_activities_iter (activity_tick_env shot_grab_fails (Inr ()) 40000000)
        monitor0)) \<and>
   activities (db (snd (monitor_activities_iter
     (activity_tick_env (shot_with ocr_ok) (Inr ()) 41000000)
     (snd (monitor_activities_iter (activity_tick_env shot_grab_fails (Inr ()) 40000000)
        monitor0))))) = [editor_row 41000000]"
  using failed_capture_leaves_last_screenshot
    [of monitor0 "activity_tick_env shot_grab_fails (Inr ()) 40000000"]
  by (simp add: screenshot_due_def inactive_seconds_def screenshot_elapsed_def
      screenshot_succeeds_def screenshot_raises_def input_defs config_defs code_defs
      prog_defs Let_def)

subsection \<open>Video recording\<close>

lemma record_frames_frame:
  "\<exists>r evs. (\<forall>s. record_frames start fs s = (r, s\<lparr>effects := effects s @ evs\<rparr>)) \<and>
     Db_execute tbl \<notin> set evs"
proof (induction fs)
  case Nil
  have "\<forall>s. record_frames start [] s = (Running, s\<lparr>effects := effects s @ []\<rparr>)"
    by simp
  then show ?case by fastforce
next
  case (Cons f fs)
  then obtain r evs where ih:
    "\<And>s. record_frames start fs s = (r, s\<lparr>effects := effects s @ evs\<rparr>)"
    "Db_execute tbl \<notin> set evs"
    by blast
  show ?case
  proof (cases "frame_clock f - start < of_int VIDEO_DURATION")
    case False
    then have "\<forall>s. record_frames start (f # fs) s =
        (Returned (), s\<lparr>effects := effects s @ []\<rparr>)"
      by (simp add: prog_defs)
    then show ?thesis by fastforce
  next
    case True
    then show ?thesis
      by (cases "sct_grab f"; cases "cvtColor f"; cases "writer_write f")
         (auto simp: prog_defs ih)
  qed
qed

text \<open>
  The frame loop ends once the script holds a clock reading at which the clip's
  duration has passed.
\<close>

lemma record_frames_finishes:
  "\<exists>f \<in> set fs. \<not> frame_clock f - start < of_int VIDEO_DURATION \<Longrightarrow>
   fst (record_frames start fs s) \<noteq> Running"
proof (induction fs arbitrary: s)
  case Nil
  then show ?case by simp
next
  case (Cons f fs)
  show ?case
  proof (cases "frame_clock f - start < of_int VIDEO_DURATION")
    case False
    then show ?thesis by (simp add: prog_defs)
  next
    case True
    with Cons.prems have "\<exists>f \<in> set fs. \<not> frame_clock f - start < of_int VIDEO_DURATION"
      by auto
    then have "\<And>t. fst (record_frames start fs t) \<noteq> Running"
      using Cons.IH by blast
    with True show ?thesis
      by (cases "sct_grab f"; cases "cvtColor f"; cases "writer_write f")
         (auto simp: prog_defs split: prod.splits result.splits)
  qed
qed

lemma record_video_keeps:
  "activities (db (snd (record_video env s))) = activities (db s) \<and>
   last_video (snd (record_video env s)) = last_video s \<and>
   \<not> is_raised (fst (record_video env s))"
proof -
  obtain fr evs where frames:
    "\<And>t. record_frames (start_time env) (frames env) t =
       (fr, t\<lparr>effects := effects t @ evs\<rparr>)"
    using record_frames_frame [of "start_time env" "frames env" "''videos''"] by blast
  show ?thesis
    by (cases fr; cases "mss_open env"; cases "monitor_lookup env"; cases "fourcc env";
          cases "writer_open env";
          cases "writer_release env"; cases "video_execute env"; cases "video_commit env")
       (auto simp: record_video_def prog_defs frames insert_video_def commit_def Let_def)
qed

lemma record_video_returns:
  assumes "\<exists>f \<in> set (frames env). \<not> frame_clock f - start_time env < of_int VIDEO_DURATION"
  shows "\<exists>path. fst (record_video env s) = Returned path"
proof -
  obtain fr evs where frames:
    "\<And>t. record_frames (start_time env) (frames env) t =
       (fr, t\<lparr>effects := effects t @ evs\<rparr>)"
    using record_frames_frame [of "start_time env" "frames env" "''videos''"] by blast
  have "fr \<noteq> Running"
    using record_frames_finishes [OF assms, of s] by (simp add: frames)
  then show ?thesis
    by (cases fr; cases "mss_open env"; cases "monitor_lookup env"; cases "fourcc env";
          cases "writer_open env";
          cases "writer_release env"; cases "video_execute env"; cases "video_commit env")
       (auto simp: record_video_def prog_defs frames insert_video_def commit_def Let_def)
qed

text \<open>
  C5. \<^verbatim>\<open>record_video\<close> raises nothing; when the capture or the encode fails
  (opening the screen or the writer, a frame, or the release raises) it returns
  \<^verbatim>\<open>None\<close> and the store is as before; and whenever a row has been added to
  \<^verbatim>\<open>videos\<close>, the frame loop had returned and the insert came right after the
  writer's release, as the first insert of the call.
\<close>

theorem record_video_row_after_release:
  "(let (r, s') = record_video env s in
     \<not> is_raised r \<and>
     (encode_fails env s \<longrightarrow> r = Returned None \<and> db s' = db s) \<and>
     (videos (db s') \<noteq> videos (db s) \<longrightarrow>
        \<not> encode_fails env s \<and>
        fst (record_frames (start_time env) (frames env) s) = Returned () \<and>
        (\<exists>pre post.
           effects s' = effects s @ pre @ Writer_release # Db_execute ''videos'' # post \<and>
           Db_execute ''videos'' \<notin> set pre)))"
proof -
  obtain fr evs where frames:
    "\<And>t. record_frames (start_time env) (frames env) t =
       (fr, t\<lparr>effects := effects t @ evs\<rparr>)"
    and quiet: "Db_execute ''videos'' \<notin> set evs"
    using record_frames_frame [of "start_time env" "frames env" "''videos''"] by blast
  let ?pre = "[Mss_open, Monitor_lookup, VideoWriter_fourcc,
      VideoWriter_open (video_path (video_stamp env))] @ evs"
  have pre: "Db_execute ''videos'' \<notin> set ?pre"
    using quiet by simp
  have shape: "\<And>post. \<exists>pre' post'.
      effects s @ ?pre @ Writer_release # Db_execute ''videos'' # post =
      effects s @ pre' @ Writer_release # Db_execute ''videos'' # post' \<and>
      Db_execute ''videos'' \<notin> set pre'"
    using pre by blast
  show ?thesis
  proof (cases fr)
    case (Returned u)
    then show ?thesis
      using shape [of "[Db_commit]"]
        shape [of "[Db_commit, Print (''Video recording error: '' @ str_of_error e)]" for e]
      by (cases "mss_open env"; cases "monitor_lookup env"; cases "fourcc env";
          cases "writer_open env";
          cases "writer_release env"; cases "video_execute env"; cases "video_commit env")
         (auto simp: record_video_def prog_defs frames encode_fails_def insert_video_def
            commit_def Let_def)
  next
    case (Raised e)
    then show ?thesis
      by (cases "mss_open env"; cases "monitor_lookup env"; cases "fourcc env";
          cases "writer_open env")
         (auto simp: record_video_def prog_defs frames encode_fails_def Let_def)
  next
    case Running
    then show ?thesis
      by (cases "mss_open env"; cases "monitor_lookup env"; cases "fourcc env";
          cases "writer_open env")
         (auto simp: record_video_def prog_defs frames encode_fails_def Let_def)
  qed
qed

theorem record_video_row_after_release_witness:
  "encode_fails video_grab_fails monitor0 \<and>
   record_video video_grab_fails monitor0 =
     (Returned None,
      monitor0\<lparr>effects := [Mss_open, Monitor_lookup, VideoWriter_fourcc,
        VideoWriter_open ''JARVIS_DATA/videos/recording_20240101_123000.mp4'', Sct_grab,
        Print ''Video recording error: XGetImage() failed'']\<rparr>) \<and>
   fst (record_video video_ok monitor0) =
     Returned (Some ''JARVIS_DATA/videos/recording_20240101_123000.mp4'') \<and>
   videos (db (snd (record_video video_ok monitor0))) =
     [\<lparr>v_timestamp = 1811000000, duration = 10,
       file_path = ''JARVIS_DATA/videos/recording_20240101_123000.mp4''\<rparr>] \<and>
   effects (snd (record_video video_ok monitor0)) =
     [Mss_open, Monitor_lookup, VideoWriter_fourcc,
      VideoWriter_open ''JARVIS_DATA/videos/recording_20240101_123000.mp4'',
      Sct_grab, CvtColor, Writer_write, Sleep (1 / 25),
      Sct_grab, CvtColor, Writer_write, Sleep (1 / 25),
      Writer_release, Db_execute ''videos'', Db_commit]"
  using record_video_row_after_release [of video_grab_fails monitor0]
    record_video_row_after_release [of video_ok monitor0]
  by (simp add: encode_fails_def input_defs config_defs code_defs prog_defs Let_def)

subsection \<open>The video loop\<close>

text \<open>
  Whatever \<^verbatim>\<open>record_video\<close> returns, a due iteration of the video loop assigns
  \<open>last_video\<close>.
\<close>

lemma video_tick_sets_last_video:
  assumes "monitoring_enabled s"
    and "total_seconds (video_now env - last_video s) > of_int VIDEO_INTERVAL"
    and "fst (record_video (video env) s) = Returned r"
  shows "last_video (snd (monitor_videos_iter env s)) = video_after env"
proof -
  obtain s1 where "record_video (video env) s = (Returned r, s1)"
    using assms(3) by (cases "record_video (video env) s") simp
  then show ?thesis
    using assms(1,2) by (simp add: monitor_videos_iter_def prog_defs)
qed

lemma video_tick_activities:
  "activities (db (snd (monitor_videos_iter env s))) = activities (db s)"
proof -
  obtain r s1 where rv: "record_video (video env) s = (r, s1)"
    by (cases "record_video (video env) s")
  with record_video_keeps [of "video env" s]
  have "activities (db s1) = activities (db s)" "\<not> is_raised r" by simp_all
  then show ?thesis
    by (cases r) (auto simp: monitor_videos_iter_def prog_defs rv)
qed

text \<open>
  C1 on the code. The recording of a due iteration fails at its first frame:
  \<^verbatim>\<open>record_video\<close> returns \<^verbatim>\<open>None\<close> and no row is written, yet the
  iteration sets \<open>last_video\<close> to the clock after the attempt, and the iteration
  one second later finds the interval not elapsed and only sleeps.
\<close>

theorem video_failure_advances_last_video:
  "monitoring_enabled monitor0 \<and>
   total_seconds (video_now video_tick_failing - last_video monitor0)
     > of_int VIDEO_INTERVAL \<and>
   fst (record_video (video video_tick_failing) monitor0) = Returned None \<and>
   monitor_videos_iter video_tick_failing monitor0 =
     (Returned (),
      monitor0\<lparr>last_video := 1801200000,
        effects := [Mss_open, Monitor_lookup, VideoWriter_fourcc,
          VideoWriter_open ''JARVIS_DATA/videos/recording_20240101_123000.mp4'', Sct_grab,
          Print ''Video recording error: XGetImage() failed'', Sleep 1]\<rparr>) \<and>
   monitor_videos_iter video_tick_next (snd (monitor_videos_iter video_tick_failing monitor0)) =
     (Returned (),
      monitor0\<lparr>last_video := 1801200000,
        effects := [Mss_open, Monitor_lookup, VideoWriter_fourcc,
          VideoWriter_open ''JARVIS_DATA/videos/recording_20240101_123000.mp4'', Sct_grab,
          Print ''Video recording error: XGetImage() failed'', Sleep 1, Sleep 1]\<rparr>)"
  by (simp add: input_defs config_defs code_defs prog_defs Let_def)

subsection \<open>The history query\<close>

lemma select_history_sorted:
  "sorted_wrt (\<lambda>a b. timestamp a \<ge> timestamp b) (select_history st)"
proof -
  let ?asc = "sort_key timestamp (filter active_session (activities st))"
  have "sorted (map timestamp ?asc)" by (rule sorted_sort_key)
  then have "sorted_wrt (\<lambda>a b. timestamp a \<le> timestamp b) ?asc"
    by (simp only: sorted_map)
  then have "sorted_wrt (\<lambda>a b. timestamp a \<ge> timestamp b) (rev ?asc)"
    by (simp only: sorted_wrt_rev)
  then show ?thesis
    unfolding select_history_def by (rule sorted_wrt_take)
qed

lemma history_sorted:
  "sorted_wrt (\<lambda>a b. h_timestamp a \<ge> h_timestamp b) (get_activity_history s)"
proof -
  have "(\<lambda>a b. h_timestamp (history_entry_of a) \<ge> h_timestamp (history_entry_of b))
      = (\<lambda>a b. timestamp a \<ge> timestamp b)"
    by (simp add: history_entry_of_def)
  then show ?thesis
    using select_history_sorted [of "db s"]
    by (simp add: get_activity_history_def sorted_wrt_map)
qed

lemma select_history_rest:
  assumes "x \<in># mset (filter active_session (activities st)) - mset (select_history st)"
    and "y \<in> set (select_history st)"
  shows "timestamp x \<le> timestamp y"
proof -
  let ?asc = "sort_key timestamp (filter active_session (activities st))"
  let ?desc = "rev ?asc"
  have "sorted (map timestamp ?asc)" by (rule sorted_sort_key)
  then have "sorted_wrt (\<lambda>a b. timestamp a \<le> timestamp b) ?asc"
    by (simp only: sorted_map)
  then have sorted: "sorted_wrt (\<lambda>a b. timestamp a \<ge> timestamp b) ?desc"
    by (simp only: sorted_wrt_rev)
  have "mset ?desc = mset (filter active_session (activities st))" by simp
  moreover have "mset ?desc = mset (take 10 ?desc) + mset (drop 10 ?desc)"
    by (metis append_take_drop_id mset_append)
  ultimately have "mset (filter active_session (activities st)) - mset (select_history st)
      = mset (drop 10 ?desc)"
    by (simp add: select_history_def)
  with assms(1) have x: "x \<in> set (drop 10 ?desc)" by simp
  from assms(2) have y: "y \<in> set (take 10 ?desc)" by (simp add: select_history_def)
  from sorted
  have "sorted_wrt (\<lambda>a b. timestamp a \<ge> timestamp b) (take 10 ?desc @ drop 10 ?desc)"
    by (simp only: append_take_drop_id)
  then show ?thesis
    using x y unfolding sorted_wrt_append by blast
qed

lemma select_history_sub:
  "mset (select_history st) \<subseteq># mset (filter active_session (activities st))"
proof -
  let ?desc = "rev (sort_key timestamp (filter active_session (activities st)))"
  have "mset (take 10 ?desc) + mset (drop 10 ?desc) = mset ?desc"
    by (metis append_take_drop_id mset_append)
  then have "mset (take 10 ?desc) \<subseteq># mset ?desc"
    by (metis mset_subset_eq_add_left)
  then show ?thesis
    by (simp add: select_history_def)
qed

lemma history_length:
  "length (get_activity_history s) =
      min 10 (length (filter active_session (activities (db s))))"
  by (simp add: get_activity_history_def select_history_def)

lemma history_empty: "activities (db s) = [] \<Longrightarrow> get_activity_history s = []"
  by (simp add: get_activity_history_def select_history_def)

text \<open>
  C7. For every state of the store, the history query returns the projections of
  rows of \<^verbatim>\<open>activities\<close> that have \<^verbatim>\<open>active_session\<close> true (each at most as
  often as it is stored), by descending timestamp, ten of them or all when there are
  fewer; no active row left out is newer than a row returned; and on an empty table
  the answer is the empty list.
\<close>

theorem get_activity_history_newest_first:
  "get_activity_history s = map history_entry_of (select_history (db s)) \<and>
   mset (select_history (db s)) \<subseteq># mset (filter active_session (activities (db s))) \<and>
   sorted_wrt (\<lambda>a b. h_timestamp a \<ge> h_timestamp b) (get_activity_history s) \<and>
   length (get_activity_history s) =
     min 10 (length (filter active_session (activities (db s)))) \<and>
   (\<forall>x \<in># mset (filter active_session (activities (db s))) - mset (select_history (db s)).
      \<forall>y \<in> set (select_history (db s)). timestamp x \<le> timestamp y) \<and>
   (activities (db s) = [] \<longrightarrow> get_activity_history s = [])"
proof -
  have rest:
    "\<forall>x \<in># mset (filter active_session (activities (db s))) - mset (select_history (db s)).
      \<forall>y \<in> set (select_history (db s)). timestamp x \<le> timestamp y"
    using select_history_rest by blast
  have "get_activity_history s = map history_entry_of (select_history (db s))"
    by (simp only: get_activity_history_def)
  with select_history_sub [of "db s"] history_sorted [of s] history_length [of s]
    history_empty [of s] rest
  show ?thesis
    by blast
qed

theorem get_activity_history_newest_first_witness:
  "activities (db monitor0) = [] \<and> get_activity_history monitor0 = [] \<and>
   map h_timestamp (get_activity_history busy_monitor) = [12, 11, 10, 9, 8, 7, 6, 5, 3, 2] \<and>
   length (filter active_session (activities (db busy_monitor))) = 11"
proof -
  have empty: "activities (db monitor0) = []"
    by (simp add: monitor0_def)
  have "get_activity_history monitor0 = []"
    using get_activity_history_newest_first [of monitor0] empty by blast
  moreover have "select_history (db busy_monitor) =
      [stored_row 12 True, stored_row 11 True, stored_row 10 True, stored_row 9 True,
       stored_row 8 True, stored_row 7 True, stored_row 6 True, stored_row 5 True,
       stored_row 3 True, stored_row 2 True]"
    by (simp add: select_history_def busy_monitor_def monitor0_def stored_row_def)
  then have "map h_timestamp (get_activity_history busy_monitor) =
      [12, 11, 10, 9, 8, 7, 6, 5, 3, 2]"
    using get_activity_history_newest_first [of busy_monitor]
    by (simp add: history_entry_of_def stored_row_def)
  moreover have "length (filter active_session (activities (db busy_monitor))) = 11"
    by (simp add: busy_monitor_def monitor0_def stored_row_def)
  ultimately show ?thesis
    using empty by blast
qed

subsection \<open>Rows written by the engine\<close>

lemma system_tick_activities:
  "activities (db (snd (monitor_system_iter env s))) = activities (db s)"
  by (cases "cpu_percent env"; cases "virtual_memory env"; cases "net_io_counters env";
      cases "system_execute env"; cases "system_commit env")
     (auto simp: monitor_system_iter_def prog_defs insert_metric_def commit_def Let_def)

lemma activity_tick_appends:
  "\<exists>new. activities (db (snd (monitor_activities_iter env s))) = activities (db s) @ new \<and>
     (\<forall>r \<in> set new. active_session r)"
proof (cases "monitoring_enabled s")
  case False
  then have "activities (db (snd (monitor_activities_iter env s))) = activities (db s) @ []"
    by (simp add: monitor_activities_iter_def prog_defs)
  then show ?thesis by fastforce
next
  case True
  from activity_tick_cases [OF this, of env]
  consider row where
      "activities (db (snd (monitor_activities_iter env s))) = activities (db s) @ [row]"
      "active_session row"
    | "activities (db (snd (monitor_activities_iter env s))) = activities (db s) @ []"
    by (auto simp: Let_def split: if_splits)
  then show ?thesis
  proof cases
    case 1
    then show ?thesis by fastforce
  next
    case 2
    then show ?thesis by fastforce
  qed
qed

lemma step_appends:
  "\<exists>new. activities (db (snd (step a s))) = activities (db s) @ new \<and>
     (\<forall>r \<in> set new. active_session r)"
proof (cases a)
  case (Activities env)
  then show ?thesis using activity_tick_appends by simp
next
  case (System env)
  then have "activities (db (snd (step a s))) = activities (db s) @ []"
    by (simp add: system_tick_activities)
  then show ?thesis by fastforce
next
  case (Videos env)
  then have "activities (db (snd (step a s))) = activities (db s) @ []"
    by (simp add: video_tick_activities)
  then show ?thesis by fastforce
next
  case Toggle
  then have "activities (db (snd (step a s))) = activities (db s) @ []"
    by (simp add: toggle_monitoring_def prog_defs)
  then show ?thesis by fastforce
qed

text \<open>
  C10. Along every run of the engine (any interleaving of iterations of the three
  loops and of toggles, from any state), the rows added to \<^verbatim>\<open>activities\<close> all
  have \<^verbatim>\<open>active_session\<close> true, so the filter of the history query keeps every
  one of them.
\<close>

theorem engine_rows_are_active:
  "\<exists>new. activities (db (run acts s)) = activities (db s) @ new \<and>
     (\<forall>r \<in> set new. active_session r) \<and>
     filter active_session (activities (db (run acts s))) =
       filter active_session (activities (db s)) @ new"
proof (induction acts arbitrary: s)
  case Nil
  have "activities (db (run [] s)) = activities (db s) @ []" by simp
  then show ?case by fastforce
next
  case (Cons a acts)
  obtain new1 where one: "activities (db (snd (step a s))) = activities (db s) @ new1"
    "\<forall>r \<in> set new1. active_session r"
    using step_appends by blast
  obtain new2 where two:
    "activities (db (run acts (snd (step a s)))) = activities (db (snd (step a s))) @ new2"
    "\<forall>r \<in> set new2. active_session r"
    using Cons.IH by blast
  have "activities (db (run (a # acts) s)) = activities (db s) @ (new1 @ new2)"
    using one two by simp
  moreover have "\<forall>r \<in> set (new1 @ new2). active_session r"
    using one two by auto
  moreover have "filter active_session (new1 @ new2) = new1 @ new2"
    using one two by (simp add: filter_id_conv)
  ultimately show ?case
    by (metis filter_append)
qed

theorem engine_rows_are_active_witness:
  "activities (db (run engine_run monitor0)) = [editor_row 41000000] \<and>
   filter active_session (activities (db (run engine_run monitor0))) =
     [editor_row 41000000]"
  using engine_rows_are_active [of engine_run monitor0]
  by (simp add: engine_run_def input_defs config_defs code_defs prog_defs Let_def)

end
